theory Spec2Isabelle
  imports Complex_Main
begin

section \<open>Solar eclipse magnitude estimator\<close>

text \<open>
  A shallow embedding of \<^verbatim>\<open>src/Solar_eclipse/Solar_eclipse.py\<close> (the function
  \<^verbatim>\<open>eclipse\<close>, the module-level time window and the batch loop) and of
  \<^verbatim>\<open>src/Solar_eclipse/Skript_eclipse.py\<close> (the function \<^verbatim>\<open>estimate_eclipse\<close>).

  Python floats are read as real numbers: the embedding is exact arithmetic, and says
  nothing about rounding errors of IEEE doubles. The Skyfield ephemeris is an external
  library; what the scripts ask of it is collected in a record of functions, and every
  theorem holds for every such record.
\<close>

subsection \<open>Errors\<close>

text \<open>
  \<^verbatim>\<open>ValueError\<close> is raised by \<^verbatim>\<open>np.argmin\<close> on an empty sequence and by
  \<^verbatim>\<open>math.asin\<close> outside \<open>[-1, 1]\<close>; \<^verbatim>\<open>ZeroDivisionError\<close> by a division of two
  Python floats whose divisor is zero.
\<close>

datatype error = ValueError | ZeroDivisionError

subsection \<open>The ephemeris, as \<^verbatim>\<open>Solar_eclipse.py\<close> uses it\<close>

text \<open>
  \<^item> \<open>observe_apparent loc t body\<close> is \<^verbatim>\<open>loc.at(t).observe(body).apparent()\<close>;
  \<^item> \<open>separation_degrees a b\<close> is \<^verbatim>\<open>a.separation_from(b).degrees\<close>, and
    \<open>separation_radians\<close> the same angle's \<^verbatim>\<open>.radians\<close>;
  \<^item> \<open>distance_km a\<close> is \<^verbatim>\<open>a.distance().km\<close>;
  \<^item> \<open>utc_datetime t\<close> is \<^verbatim>\<open>t.utc_datetime()\<close>;
  \<^item> \<open>topos lat lon\<close> is \<^verbatim>\<open>earth + Topos(latitude_degrees=lat, longitude_degrees=lon)\<close>.
\<close>

record ('loc, 'body, 't, 'pos, 'dt) skyfield =
  observe_apparent :: "'loc \<Rightarrow> 't \<Rightarrow> 'body \<Rightarrow> 'pos"
  separation_degrees :: "'pos \<Rightarrow> 'pos \<Rightarrow> real"
  separation_radians :: "'pos \<Rightarrow> 'pos \<Rightarrow> real"
  distance_km :: "'pos \<Rightarrow> real"
  utc_datetime :: "'t \<Rightarrow> 'dt"
  topos :: "real \<Rightarrow> real \<Rightarrow> 'loc"

subsection \<open>Constants (lines 14-15)\<close>

definition RADIUS_SUN_KM :: real where
  "RADIUS_SUN_KM = 696340"

definition RADIUS_MOON_KM :: real where
  "RADIUS_MOON_KM = 17374 / 10"

subsection \<open>Library functions of Python and numpy\<close>

text \<open>
  \<^verbatim>\<open>np.argmin\<close>: the index of the first occurrence of the minimum, found by one scan
  that keeps the best value seen and replaces it only by a strictly smaller one;
  \<^verbatim>\<open>ValueError\<close> on an empty sequence.
\<close>

fun argmin_scan :: "real list \<Rightarrow> nat \<Rightarrow> real \<Rightarrow> nat \<Rightarrow> nat" where
  "argmin_scan [] i best best_idx = best_idx"
| "argmin_scan (y # ys) i best best_idx =
     (if y < best then argmin_scan ys (Suc i) y i
      else argmin_scan ys (Suc i) best best_idx)"

fun argmin :: "real list \<Rightarrow> error + nat" where
  "argmin [] = Inl ValueError"
| "argmin (x # xs) = Inr (argmin_scan xs 1 x 0)"

text \<open>\<^verbatim>\<open>math.asin\<close>: a domain error outside \<open>[-1, 1]\<close>.\<close>

definition py_asin :: "real \<Rightarrow> error + real" where
  "py_asin x = (if x < - 1 \<or> 1 < x then Inl ValueError else Inr (arcsin x))"

text \<open>Division of two Python floats.\<close>

definition py_div :: "real \<Rightarrow> real \<Rightarrow> error + real" where
  "py_div a b = (if b = 0 then Inl ZeroDivisionError else Inr (a / b))"

text \<open>
  \<^verbatim>\<open>round(x, n)\<close>: to \<open>n\<close> decimal places, a tie going to the even neighbour.
\<close>

definition round_half_even :: "real \<Rightarrow> int" where
  "round_half_even x =
     (let f = \<lfloor>x\<rfloor>; r = x - of_int f
      in if r < 1 / 2 then f
         else if 1 / 2 < r then f + 1
         else if even f then f else f + 1)"

definition py_round :: "real \<Rightarrow> nat \<Rightarrow> real" where
  "py_round x n = of_int (round_half_even (x * 10 ^ n)) / 10 ^ n"

text \<open>
  \<^verbatim>\<open>np.linspace(start, stop, num)\<close> with the default \<^verbatim>\<open>endpoint=True\<close>: the
  indices \<open>0 .. num - 1\<close> are scaled by \<open>step = (stop - start) / (num - 1)\<close> and shifted
  by \<open>start\<close>, and the last entry is then overwritten with \<open>stop\<close>.
\<close>

definition linspace :: "real \<Rightarrow> real \<Rightarrow> nat \<Rightarrow> real list" where
  "linspace start stop num =
     (let divisor = num - 1;
          delta = stop - start;
          y = map real [0..<num];
          y = (if 0 < divisor then map (\<lambda>k. k * (delta / real divisor)) y
               else map (\<lambda>k. k * delta) y);
          y = map (\<lambda>v. v + start) y
      in if 1 < num then y[num - 1 := stop] else y)"

subsection \<open>The time window (lines 23-24)\<close>

text \<open>
  An instant of 12 August 2026 is the number of minutes since 00:00 UTC of that day;
  \<^verbatim>\<open>ts.utc(2026, 8, 12, hour, minute)\<close> is then \<open>60 * hour + minute\<close>, entry by
  entry when \<^verbatim>\<open>minute\<close> is an array. The constant \<open>times_utc\<close> is the source's
  module-level \<^verbatim>\<open>times\<close>.
\<close>

definition ts_utc_2026_8_12 :: "real \<Rightarrow> real list \<Rightarrow> real list" where
  "ts_utc_2026_8_12 hour minute = map (\<lambda>m. 60 * hour + m) minute"

definition minutes :: "real list" where
  "minutes = linspace (- 60) 60 1000"

definition times_utc :: "real list" where
  "times_utc = ts_utc_2026_8_12 18 minutes"

subsection \<open>The function \<^verbatim>\<open>eclipse\<close> (lines 27-74)\<close>

text \<open>Lines 43-46: the separation in degrees at one sample, the body of the loop.\<close>

definition separation_at ::
  "('loc, 'body, 't, 'pos, 'dt) skyfield \<Rightarrow> 'loc \<Rightarrow> 'body \<Rightarrow> 'body \<Rightarrow> 't \<Rightarrow> real" where
  "separation_at S location sun moon t =
     (let sun_app = observe_apparent S location t sun;
          moon_app = observe_apparent S location t moon
      in separation_degrees S sun_app moon_app)"

text \<open>Lines 41-47: the loop.\<close>

definition separations ::
  "('loc, 'body, 't, 'pos, 'dt) skyfield \<Rightarrow> 't list \<Rightarrow> 'loc \<Rightarrow> 'body \<Rightarrow> 'body \<Rightarrow> real list" where
  "separations S ts location sun moon = map (separation_at S location sun moon) ts"

text \<open>Lines 41-50: the sample of least separation.\<close>

definition locate_max ::
  "('loc, 'body, 't, 'pos, 'dt) skyfield \<Rightarrow> 't list \<Rightarrow> 'loc \<Rightarrow> 'body \<Rightarrow> 'body \<Rightarrow> error + 't" where
  "locate_max S ts location sun moon =
     (case argmin (separations S ts location sun moon) of
        Inl e \<Rightarrow> Inl e
      | Inr min_idx \<Rightarrow> Inr (ts ! min_idx))"

text \<open>
  Lines 62-63: \<^verbatim>\<open>asin(RADIUS / distance_km)\<close>. The distance is a numpy float, so a
  zero distance gives an infinite quotient, which \<^verbatim>\<open>asin\<close> rejects.
\<close>

definition angular_radius :: "real \<Rightarrow> real \<Rightarrow> error + real" where
  "angular_radius radius_km distance =
     (if distance = 0 then Inl ValueError else py_asin (radius_km / distance))"

text \<open>Line 69 and lines 71-72: the two non-zero branches.\<close>

definition full_coverage :: "real \<Rightarrow> real \<Rightarrow> error + real" where
  "full_coverage R_sun R_moon = py_div (min R_moon R_sun) R_sun"

definition partial_overlap :: "real \<Rightarrow> real \<Rightarrow> real \<Rightarrow> error + real" where
  "partial_overlap d R_sun R_moon =
     (let chord = R_moon + R_sun - d in py_div chord (2 * R_sun))"

text \<open>Lines 66-72.\<close>

definition magnitude_of :: "real \<Rightarrow> real \<Rightarrow> real \<Rightarrow> error + real" where
  "magnitude_of d R_sun R_moon =
     (if R_sun + R_moon \<le> d then Inr 0
      else if d \<le> \<bar>R_sun - R_moon\<bar> then full_coverage R_sun R_moon
      else partial_overlap d R_sun R_moon)"

text \<open>The whole function. The argument \<open>mins\<close> is the source's \<^verbatim>\<open>minutes\<close>.\<close>

definition eclipse ::
  "('loc, 'body, 't, 'pos, 'dt) skyfield \<Rightarrow> real list \<Rightarrow> 't list \<Rightarrow> 'loc \<Rightarrow> 'body \<Rightarrow> 'body
     \<Rightarrow> error + ('dt \<times> real)" where
  "eclipse S mins ts location sun moon =
     (case locate_max S ts location sun moon of
        Inl e \<Rightarrow> Inl e
      | Inr t_max \<Rightarrow>
          let t_max_utc = utc_datetime S t_max;
              sun_app = observe_apparent S location t_max sun;
              moon_app = observe_apparent S location t_max moon;
              d = separation_radians S sun_app moon_app;
              sun_distance_km = distance_km S sun_app;
              moon_distance_km = distance_km S moon_app
          in case angular_radius RADIUS_SUN_KM sun_distance_km of
               Inl e \<Rightarrow> Inl e
             | Inr R_sun \<Rightarrow>
                 (case angular_radius RADIUS_MOON_KM moon_distance_km of
                    Inl e \<Rightarrow> Inl e
                  | Inr R_moon \<Rightarrow>
                      (case magnitude_of d R_sun R_moon of
                         Inl e \<Rightarrow> Inl e
                       | Inr magnitude \<Rightarrow> Inr (t_max_utc, magnitude))))"

subsection \<open>The batch loop (lines 103-119)\<close>

text \<open>
  One output row per parsed input row \<open>(lon, lat)\<close>. No exception is caught: the first
  error ends the loop and the script.
\<close>

type_synonym 'dt row = "real \<times> real \<times> 'dt \<times> real"

fun batch ::
  "('loc, 'body, 't, 'pos, 'dt) skyfield \<Rightarrow> real list \<Rightarrow> 't list \<Rightarrow> 'body \<Rightarrow> 'body
     \<Rightarrow> (real \<times> real) list \<Rightarrow> 'dt row list \<Rightarrow> error + 'dt row list" where
  "batch S mins ts sun moon [] rows = Inr rows"
| "batch S mins ts sun moon ((lon, lat) # rest) rows =
     (let location = topos S lat lon
      in case eclipse S mins ts location sun moon of
           Inl e \<Rightarrow> Inl e
         | Inr (time_max, magnitude) \<Rightarrow>
             batch S mins ts sun moon rest (rows @ [(lat, lon, time_max, py_round magnitude 4)]))"

subsection \<open>The three-branch policy, in the words of the specification\<close>

definition magnitude_policy :: "real \<Rightarrow> real \<Rightarrow> real \<Rightarrow> real" where
  "magnitude_policy d R_sun R_moon =
     (if d \<ge> R_sun + R_moon then 0
      else if d \<le> \<bar>R_sun - R_moon\<bar> then min R_moon R_sun / R_sun
      else (R_moon + R_sun - d) / (2 * R_sun))"

subsection \<open>The function \<^verbatim>\<open>estimate_eclipse\<close> of \<^verbatim>\<open>Skript_eclipse.py\<close> (lines 38-73)\<close>

text \<open>
  \<^item> \<open>latlon lat lon\<close> is \<^verbatim>\<open>wgs84.latlon(lat, lon)\<close>;
  \<^item> \<open>find_eclipse_events obs\<close> is
    \<^verbatim>\<open>find_discrete(t0, t1, solar_eclipses(eph, observer))\<close>: the times and the events;
  \<^item> \<open>sun_altitude obs t\<close> is
    \<^verbatim>\<open>observer.at(t).observe(sun).apparent().altaz()[0].degrees\<close>;
  \<^item> \<open>sun_position_km obs t\<close> and \<open>moon_position_km obs t\<close> are
    \<^verbatim>\<open>observer.at(t).observe(body).apparent().position.km\<close>;
  \<^item> \<open>utc_iso t\<close> is \<^verbatim>\<open>t.utc_iso()\<close>.
\<close>

record ('obs, 't, 'iso) almanac =
  latlon :: "real \<Rightarrow> real \<Rightarrow> 'obs"
  find_eclipse_events :: "'obs \<Rightarrow> 't list \<times> int list"
  sun_altitude :: "'obs \<Rightarrow> 't \<Rightarrow> real"
  sun_position_km :: "'obs \<Rightarrow> 't \<Rightarrow> real \<times> real \<times> real"
  moon_position_km :: "'obs \<Rightarrow> 't \<Rightarrow> real \<times> real \<times> real"
  utc_iso :: "'t \<Rightarrow> 'iso"

text \<open>Line 69: \<^verbatim>\<open>np.linalg.norm(np.array(p) - np.array(q))\<close>.\<close>

fun norm_diff :: "real \<times> real \<times> real \<Rightarrow> real \<times> real \<times> real \<Rightarrow> real" where
  "norm_diff (x1, y1, z1) (x2, y2, z2) =
     sqrt ((x1 - x2)\<^sup>2 + (y1 - y2)\<^sup>2 + (z1 - z2)\<^sup>2)"

text \<open>Lines 60-73: the loop over the events, and the final \<^verbatim>\<open>return None, 0.0\<close>.\<close>

fun scan_events ::
  "('obs, 't, 'iso) almanac \<Rightarrow> 'obs \<Rightarrow> ('t \<times> int) list \<Rightarrow> 'iso option \<times> real" where
  "scan_events A observer [] = (None, 0)"
| "scan_events A observer ((ti, ei) # rest) =
     (if ei = 1 then
        (let sun_alt = sun_altitude A observer ti
         in if 0 < sun_alt then
              (let sun_pos = sun_position_km A observer ti;
                   moon_pos = moon_position_km A observer ti;
                   distance = norm_diff sun_pos moon_pos;
                   mag = max 0 (1 - distance / 10000)
               in (Some (utc_iso A ti), py_round mag 3))
            else scan_events A observer rest)
      else scan_events A observer rest)"

definition estimate_eclipse ::
  "('obs, 't, 'iso) almanac \<Rightarrow> real \<Rightarrow> real \<Rightarrow> 'iso option \<times> real" where
  "estimate_eclipse A lat lon =
     (let observer = latlon A lat lon;
          (tms, events) = find_eclipse_events A observer
      in if length events = 0 then (None, 0)
         else scan_events A observer (zip tms events))"

section \<open>A stub ephemeris\<close>

text \<open>
  A deterministic provider for concrete instances. A position is a pair of an angle along
  one great circle, in degrees, and a distance in kilometres. The Sun (body \<open>True\<close>)
  stays at angle 0 and 150 million km; the Moon (body \<open>False\<close>) is 384400 km away and
  moves by a hundredth of a degree per minute, crossing the Sun at minute 1080 (18:00).
\<close>

definition stub_skyfield :: "(unit, bool, real, real \<times> real, real) skyfield" where
  "stub_skyfield =
     \<lparr>observe_apparent =
        (\<lambda>loc t body. if body then (0, 150000000) else ((t - 1080) / 100, 384400)),
      separation_degrees = (\<lambda>a b. \<bar>fst a - fst b\<bar>),
      separation_radians = (\<lambda>a b. \<bar>fst a - fst b\<bar> * pi / 180),
      distance_km = snd,
      utc_datetime = (\<lambda>t. t),
      topos = (\<lambda>lat lon. ())\<rparr>"

text \<open>
  A deterministic almanac for \<^verbatim>\<open>estimate_eclipse\<close>: one event, a maximum at minute
  1080, with the Sun five degrees below the horizon and the Moon exactly in front of it.
\<close>

definition stub_almanac :: "(unit, real, real) almanac" where
  "stub_almanac =
     \<lparr>latlon = (\<lambda>lat lon. ()),
      find_eclipse_events = (\<lambda>observer. ([1080], [1])),
      sun_altitude = (\<lambda>observer t. - 5),
      sun_position_km = (\<lambda>observer t. (150000000, 0, 0)),
      moon_position_km = (\<lambda>observer t. (150000000, 0, 0)),
      utc_iso = (\<lambda>t. t)\<rparr>"

section \<open>Properties\<close>

subsection \<open>The scan of \<open>argmin\<close>\<close>

lemma argmin_scan_spec:
  assumes "length pre = i" "b < i" "pre ! b = best"
    and "\<forall>j<i. best \<le> pre ! j" and "\<forall>j<b. best < pre ! j"
  shows "argmin_scan ys i best b < length (pre @ ys) \<and>
         (\<forall>j<length (pre @ ys). (pre @ ys) ! argmin_scan ys i best b \<le> (pre @ ys) ! j) \<and>
         (\<forall>j<argmin_scan ys i best b. (pre @ ys) ! argmin_scan ys i best b < (pre @ ys) ! j)"
  using assms
proof (induction ys arbitrary: pre i best b)
  case Nil
  then show ?case by simp
next
  case (Cons y ys)
  show ?case
  proof (cases "y < best")
    case True
    have a1: "length (pre @ [y]) = Suc i" using Cons.prems by simp
    have a3: "(pre @ [y]) ! i = y" using Cons.prems by (simp add: nth_append)
    have a4: "\<forall>j<Suc i. y \<le> (pre @ [y]) ! j"
      using Cons.prems True by (auto simp: nth_append less_Suc_eq)
    have a5: "\<forall>j<i. y < (pre @ [y]) ! j"
      using Cons.prems True by (auto simp: nth_append)
    from Cons.IH [OF a1 _ a3 a4 a5] True show ?thesis by simp
  next
    case False
    have a1: "length (pre @ [y]) = Suc i" using Cons.prems by simp
    have a2: "b < Suc i" using Cons.prems by simp
    have a3: "(pre @ [y]) ! b = best" using Cons.prems by (simp add: nth_append)
    have a4: "\<forall>j<Suc i. best \<le> (pre @ [y]) ! j"
      using Cons.prems False by (auto simp: nth_append less_Suc_eq)
    have a5: "\<forall>j<b. best < (pre @ [y]) ! j"
      using Cons.prems by (auto simp: nth_append)
    from Cons.IH [OF a1 a2 a3 a4 a5] False show ?thesis by simp
  qed
qed

lemma argmin_spec:
  assumes "xs \<noteq> []"
  shows "\<exists>r. argmin xs = Inr r \<and> r < length xs \<and>
           (\<forall>j<length xs. xs ! r \<le> xs ! j) \<and> (\<forall>j<r. xs ! r < xs ! j)"
proof -
  from assms obtain x rest where xs: "xs = x # rest" by (cases xs) auto
  have "argmin_scan rest 1 x 0 < length ([x] @ rest) \<and>
         (\<forall>j<length ([x] @ rest). ([x] @ rest) ! argmin_scan rest 1 x 0 \<le> ([x] @ rest) ! j) \<and>
         (\<forall>j<argmin_scan rest 1 x 0. ([x] @ rest) ! argmin_scan rest 1 x 0 < ([x] @ rest) ! j)"
    by (rule argmin_scan_spec) auto
  then show ?thesis unfolding xs by simp
qed

subsection \<open>Operation A: the time of maximum\<close>

lemma locate_max_spec:
  assumes "ts \<noteq> []"
  shows "\<exists>i<length ts. locate_max S ts location sun moon = Inr (ts ! i) \<and>
           (\<forall>j<length ts. separation_at S location sun moon (ts ! i)
                               \<le> separation_at S location sun moon (ts ! j)) \<and>
           (\<forall>j<i. separation_at S location sun moon (ts ! i)
                       < separation_at S location sun moon (ts ! j))"
proof -
  have ne: "separations S ts location sun moon \<noteq> []"
    using assms by (simp add: separations_def)
  from argmin_spec [OF ne] obtain r where
    r: "argmin (separations S ts location sun moon) = Inr r"
       "r < length (separations S ts location sun moon)"
       "\<forall>j<length (separations S ts location sun moon).
          separations S ts location sun moon ! r \<le> separations S ts location sun moon ! j"
       "\<forall>j<r. separations S ts location sun moon ! r < separations S ts location sun moon ! j"
    by blast
  have len: "length (separations S ts location sun moon) = length ts"
    by (simp add: separations_def)
  have nth: "\<And>j. j < length ts \<Longrightarrow>
      separations S ts location sun moon ! j = separation_at S location sun moon (ts ! j)"
    by (simp add: separations_def)
  have "r < length ts" using r(2) len by simp
  moreover have "locate_max S ts location sun moon = Inr (ts ! r)"
    using r(1) by (simp add: locate_max_def)
  moreover have "\<forall>j<length ts. separation_at S location sun moon (ts ! r)
                               \<le> separation_at S location sun moon (ts ! j)"
    using r(3) \<open>r < length ts\<close> len nth by auto
  moreover have "\<forall>j<r. separation_at S location sun moon (ts ! r)
                       < separation_at S location sun moon (ts ! j)"
    using r(4) \<open>r < length ts\<close> nth by auto
  ultimately show ?thesis by blast
qed

lemma eclipse_time:
  assumes "locate_max S ts location sun moon = Inr t"
    and "eclipse S mins ts location sun moon = Inr (tu, m)"
  shows "tu = utc_datetime S t"
  using assms by (auto simp: eclipse_def Let_def split: sum.splits)

lemma eclipse_locate_error:
  "locate_max S ts location sun moon = Inl e \<Longrightarrow> eclipse S mins ts location sun moon = Inl e"
  by (simp add: eclipse_def)

lemma locate_max_empty: "locate_max S [] location sun moon = Inl ValueError"
  by (simp add: locate_max_def separations_def)

text \<open>
  Claim C4. For a non-empty window, \<open>locate_max\<close> returns a sample of the window
  whose separation (in degrees) is least among all samples, and every earlier sample has
  a strictly larger separation: the earliest minimum. If one sample has a separation
  strictly below all others, that sample is returned. The time \<open>eclipse\<close> returns,
  when it returns one, is the UTC datetime of that sample.
\<close>

theorem locate_max_earliest_minimum:
  assumes "ts \<noteq> []"
  shows "\<exists>i<length ts. locate_max S ts location sun moon = Inr (ts ! i) \<and>
           (\<forall>j<length ts. separation_at S location sun moon (ts ! i)
                               \<le> separation_at S location sun moon (ts ! j)) \<and>
           (\<forall>j<i. separation_at S location sun moon (ts ! i)
                       < separation_at S location sun moon (ts ! j)) \<and>
           (\<forall>k<length ts.
              (\<forall>j<length ts. j \<noteq> k \<longrightarrow> separation_at S location sun moon (ts ! k)
                                           < separation_at S location sun moon (ts ! j))
              \<longrightarrow> locate_max S ts location sun moon = Inr (ts ! k)) \<and>
           (\<forall>tu m. eclipse S mins ts location sun moon = Inr (tu, m)
              \<longrightarrow> tu = utc_datetime S (ts ! i))"
proof -
  from locate_max_spec [OF assms, of S location sun moon] obtain i where
    i: "i < length ts" "locate_max S ts location sun moon = Inr (ts ! i)"
       "\<forall>j<length ts. separation_at S location sun moon (ts ! i)
                               \<le> separation_at S location sun moon (ts ! j)"
       "\<forall>j<i. separation_at S location sun moon (ts ! i)
                       < separation_at S location sun moon (ts ! j)"
    by blast
  have uniq: "locate_max S ts location sun moon = Inr (ts ! k)"
    if k: "k < length ts"
      and lt: "\<forall>j<length ts. j \<noteq> k \<longrightarrow> separation_at S location sun moon (ts ! k)
                                           < separation_at S location sun moon (ts ! j)"
    for k
  proof -
    have "i = k"
    proof (rule ccontr)
      assume "i \<noteq> k"
      with lt i(1) have "separation_at S location sun moon (ts ! k)
                          < separation_at S location sun moon (ts ! i)" by blast
      moreover from i(3) k have "separation_at S location sun moon (ts ! i)
                          \<le> separation_at S location sun moon (ts ! k)" by blast
      ultimately show False by simp
    qed
    with i(2) show ?thesis by simp
  qed
  have tm: "\<forall>tu m. eclipse S mins ts location sun moon = Inr (tu, m)
              \<longrightarrow> tu = utc_datetime S (ts ! i)"
    using eclipse_time [OF i(2)] by blast
  from i uniq tm show ?thesis by blast
qed

theorem locate_max_earliest_minimum_witness:
  "[1070, 1080, 1090 :: real] \<noteq> [] \<and>
   locate_max stub_skyfield [1070, 1080, 1090] () True False = Inr 1080 \<and>
   (\<exists>i<length [1070, 1080, 1090 :: real].
      locate_max stub_skyfield [1070, 1080, 1090] () True False = Inr ([1070, 1080, 1090] ! i) \<and>
      (\<forall>j<length [1070, 1080, 1090 :: real].
         separation_at stub_skyfield () True False ([1070, 1080, 1090] ! i)
           \<le> separation_at stub_skyfield () True False ([1070, 1080, 1090] ! j)) \<and>
      (\<forall>j<i. separation_at stub_skyfield () True False ([1070, 1080, 1090] ! i)
                 < separation_at stub_skyfield () True False ([1070, 1080, 1090] ! j)) \<and>
      (\<forall>k<length [1070, 1080, 1090 :: real].
         (\<forall>j<length [1070, 1080, 1090 :: real].
            j \<noteq> k \<longrightarrow> separation_at stub_skyfield () True False ([1070, 1080, 1090] ! k)
                         < separation_at stub_skyfield () True False ([1070, 1080, 1090] ! j))
         \<longrightarrow> locate_max stub_skyfield [1070, 1080, 1090] () True False
               = Inr ([1070, 1080, 1090] ! k)) \<and>
      (\<forall>tu m. eclipse stub_skyfield [] [1070, 1080, 1090] () True False = Inr (tu, m)
         \<longrightarrow> tu = utc_datetime stub_skyfield ([1070, 1080, 1090] ! i)))"
proof -
  have ne: "[1070, 1080, 1090 :: real] \<noteq> []" by simp
  have v: "locate_max stub_skyfield [1070, 1080, 1090] () True False = Inr 1080"
    by (simp add: locate_max_def separations_def separation_at_def stub_skyfield_def)
  show ?thesis
    by (rule conjI [OF ne conjI [OF v locate_max_earliest_minimum [OF ne]]])
qed

subsection \<open>The unused argument\<close>

text \<open>
  Claim C10. The result of \<open>eclipse\<close> does not depend on its \<^verbatim>\<open>minutes\<close>
  argument: two calls that differ only there return the same value (the same pair, or
  the same error).
\<close>

theorem eclipse_ignores_minutes:
  "eclipse S mins1 ts location sun moon = eclipse S mins2 ts location sun moon"
  by (simp add: eclipse_def)

subsection \<open>The empty window\<close>

lemma eclipse_empty: "eclipse S mins [] location sun moon = Inl ValueError"
  by (simp add: eclipse_def locate_max_empty)

lemma batch_empty_window:
  "observers \<noteq> [] \<Longrightarrow> batch S mins [] sun moon observers rows = Inl ValueError"
  by (cases observers) (auto simp: eclipse_empty)

text \<open>
  Claim C3 says that an empty window gives a failure reported for one observer only,
  the batch going on with the others. The batch loop catches nothing: with an empty
  window and two observers it ends in the \<^verbatim>\<open>ValueError\<close> of \<^verbatim>\<open>np.argmin\<close>
  and produces no row.
\<close>

theorem empty_window_aborts_batch_counterexample:
  "batch stub_skyfield [] [] True False [(144 / 10, 501 / 10), (166 / 10, 492 / 10)] []
     = Inl ValueError"
  by (simp add: eclipse_empty)

text \<open>
  Claim C3, amended. On an empty window \<open>eclipse\<close> fails with the
  \<^verbatim>\<open>ValueError\<close> of \<^verbatim>\<open>np.argmin\<close>; the batch loop does not catch it, so
  with at least one observer the whole batch ends in that error.
\<close>

theorem empty_window_raises_and_aborts:
  assumes "observers \<noteq> []"
  shows "eclipse S mins [] location sun moon = Inl ValueError \<and>
         batch S mins [] sun moon observers rows = Inl ValueError"
  using assms by (simp add: eclipse_empty batch_empty_window)

theorem empty_window_raises_and_aborts_witness:
  "[(144 / 10, 501 / 10), (166 / 10, 492 / 10 :: real)] \<noteq> [] \<and>
   eclipse stub_skyfield [] [] () True False = Inl ValueError \<and>
   batch stub_skyfield [] [] True False [(144 / 10, 501 / 10), (166 / 10, 492 / 10)] []
     = Inl ValueError"
proof -
  have ne: "[(144 / 10, 501 / 10), (166 / 10, 492 / 10 :: real)] \<noteq> []" by simp
  show ?thesis
    by (rule conjI [OF ne empty_window_raises_and_aborts [OF ne]])
qed

subsection \<open>Operation B: the magnitude\<close>

lemma arcsin_pos: "0 < x \<Longrightarrow> x \<le> 1 \<Longrightarrow> 0 < arcsin x"
  using arcsin_less_arcsin [of 0 x] by simp

lemma angular_radius_ok:
  assumes "0 < r" "r \<le> dst"
  shows "angular_radius r dst = Inr (arcsin (r / dst))" and "0 < arcsin (r / dst)"
proof -
  have d: "0 < dst" using assms by simp
  have q: "0 < r / dst" "r / dst \<le> 1" using assms d by simp_all
  show "angular_radius r dst = Inr (arcsin (r / dst))"
    using d q by (simp add: angular_radius_def py_asin_def)
  show "0 < arcsin (r / dst)" using q by (rule arcsin_pos)
qed

lemma magnitude_of_policy:
  "R_sun \<noteq> 0 \<Longrightarrow> magnitude_of d R_sun R_moon = Inr (magnitude_policy d R_sun R_moon)"
  by (simp add: magnitude_of_def magnitude_policy_def full_coverage_def partial_overlap_def
      py_div_def)

lemma magnitude_policy_clamp:
  assumes "0 < R_sun" "0 < R_moon"
  shows "magnitude_policy d R_sun R_moon =
           max 0 (min (min R_moon R_sun / R_sun) ((R_moon + R_sun - d) / (2 * R_sun)))"
proof -
  have m: "2 * min R_moon R_sun = R_moon + R_sun - \<bar>R_sun - R_moon\<bar>"
    by (simp add: min_def abs_if)
  have pos: "0 < 2 * R_sun" using assms by simp
  consider (far) "R_sun + R_moon \<le> d"
    | (inside) "d < R_sun + R_moon" "d \<le> \<bar>R_sun - R_moon\<bar>"
    | (partial) "d < R_sun + R_moon" "\<bar>R_sun - R_moon\<bar> < d"
    by linarith
  then show ?thesis
  proof cases
    case far
    then have "(R_moon + R_sun - d) / (2 * R_sun) \<le> 0"
      using pos by (simp add: divide_le_0_iff)
    then have "min (min R_moon R_sun / R_sun) ((R_moon + R_sun - d) / (2 * R_sun)) \<le> 0"
      by (simp add: min_le_iff_disj)
    then have "max 0 (min (min R_moon R_sun / R_sun) ((R_moon + R_sun - d) / (2 * R_sun))) = 0"
      by (rule max_absorb1)
    then show ?thesis using far by (simp add: magnitude_policy_def)
  next
    case inside
    have "(2 * min R_moon R_sun) / (2 * R_sun) \<le> (R_moon + R_sun - d) / (2 * R_sun)"
      using inside pos m by (intro divide_right_mono) simp_all
    then have le: "min R_moon R_sun / R_sun \<le> (R_moon + R_sun - d) / (2 * R_sun)"
      by simp
    have "0 \<le> min R_moon R_sun / R_sun" using assms by simp
    then show ?thesis using inside le
      by (simp add: magnitude_policy_def max_def min_absorb1)
  next
    case partial
    have "(R_moon + R_sun - d) / (2 * R_sun) \<le> (2 * min R_moon R_sun) / (2 * R_sun)"
      using partial pos m by (intro divide_right_mono) simp_all
    then have le: "(R_moon + R_sun - d) / (2 * R_sun) \<le> min R_moon R_sun / R_sun"
      by simp
    have "0 \<le> (R_moon + R_sun - d) / (2 * R_sun)"
      using partial pos by simp
    then show ?thesis using partial le
      by (simp add: magnitude_policy_def max_def min_absorb2)
  qed
qed

lemma magnitude_policy_bounds:
  assumes "0 < R_sun" "0 < R_moon"
  shows "0 \<le> magnitude_policy d R_sun R_moon" and "magnitude_policy d R_sun R_moon \<le> 1"
proof -
  show "0 \<le> magnitude_policy d R_sun R_moon"
    by (simp add: magnitude_policy_clamp [OF assms])
  have "min R_moon R_sun / R_sun \<le> 1" using assms by simp
  then show "magnitude_policy d R_sun R_moon \<le> 1"
    by (simp add: magnitude_policy_clamp [OF assms] min_le_iff_disj)
qed

lemma magnitude_policy_continuous:
  assumes "0 < R_sun" "0 < R_moon"
  shows "continuous_on A (\<lambda>d. magnitude_policy d R_sun R_moon)"
proof -
  have eq: "(\<lambda>d. magnitude_policy d R_sun R_moon) =
    (\<lambda>d. max 0 (min (min R_moon R_sun / R_sun) ((R_moon + R_sun - d) / (2 * R_sun))))"
    by (rule ext) (rule magnitude_policy_clamp [OF assms])
  show ?thesis unfolding eq by (intro continuous_intros) (use assms in simp_all)
qed

lemma magnitude_policy_antimono:
  assumes "0 < R_sun" "0 < R_moon" "d1 \<le> d2"
  shows "magnitude_policy d2 R_sun R_moon \<le> magnitude_policy d1 R_sun R_moon"
proof -
  have "(R_moon + R_sun - d2) / (2 * R_sun) \<le> (R_moon + R_sun - d1) / (2 * R_sun)"
    using assms by (intro divide_right_mono) simp_all
  then show ?thesis
    unfolding magnitude_policy_clamp [OF assms(1,2)]
    by (intro max.mono min.mono) simp_all
qed

lemma eclipse_value:
  assumes loc: "locate_max S ts location sun moon = Inr t"
    and sd: "RADIUS_SUN_KM \<le> distance_km S (observe_apparent S location t sun)"
    and md: "RADIUS_MOON_KM \<le> distance_km S (observe_apparent S location t moon)"
  shows "eclipse S mins ts location sun moon =
           Inr (utc_datetime S t,
                magnitude_policy
                  (separation_radians S (observe_apparent S location t sun)
                     (observe_apparent S location t moon))
                  (arcsin (RADIUS_SUN_KM / distance_km S (observe_apparent S location t sun)))
                  (arcsin (RADIUS_MOON_KM / distance_km S (observe_apparent S location t moon))))"
    and "0 < arcsin (RADIUS_SUN_KM / distance_km S (observe_apparent S location t sun))"
    and "0 < arcsin (RADIUS_MOON_KM / distance_km S (observe_apparent S location t moon))"
proof -
  have ps: "0 < RADIUS_SUN_KM" by (simp add: RADIUS_SUN_KM_def)
  have pm: "0 < RADIUS_MOON_KM" by (simp add: RADIUS_MOON_KM_def)
  note rs = angular_radius_ok [OF ps sd]
  note rm = angular_radius_ok [OF pm md]
  show "0 < arcsin (RADIUS_SUN_KM / distance_km S (observe_apparent S location t sun))"
    by (rule rs(2))
  show "0 < arcsin (RADIUS_MOON_KM / distance_km S (observe_apparent S location t moon))"
    by (rule rm(2))
  have nz: "arcsin (RADIUS_SUN_KM / distance_km S (observe_apparent S location t sun)) \<noteq> 0"
    using rs(2) by simp
  show "eclipse S mins ts location sun moon =
           Inr (utc_datetime S t,
                magnitude_policy
                  (separation_radians S (observe_apparent S location t sun)
                     (observe_apparent S location t moon))
                  (arcsin (RADIUS_SUN_KM / distance_km S (observe_apparent S location t sun)))
                  (arcsin (RADIUS_MOON_KM / distance_km S (observe_apparent S location t moon))))"
    by (simp add: eclipse_def loc Let_def rs(1) rm(1) magnitude_of_policy [OF nz])
qed


text \<open>
  Claim C1. Let \<open>t_max\<close> be the sample found by \<open>locate_max\<close>, \<open>d\<close> the separation in
  radians there, \<open>R_sun = asin (696340 / sun_distance_km)\<close> and
  \<open>R_moon = asin (1737.4 / moon_distance_km)\<close>. When both distances are at least the
  physical radii, both angular radii are positive, and \<open>eclipse\<close> returns the magnitude
  of the three branches, tested in order: 0 if \<open>d \<ge> R_sun + R_moon\<close>, else
  \<open>min R_moon R_sun / R_sun\<close> if \<open>d \<le> \<bar>R_sun - R_moon\<bar>\<close>, else
  \<open>(R_moon + R_sun - d) / (2 * R_sun)\<close>.
\<close>

theorem eclipse_three_branch_policy:
  assumes "locate_max S ts location sun moon = Inr t_max"
    and "696340 \<le> distance_km S (observe_apparent S location t_max sun)"
    and "17374 / 10 \<le> distance_km S (observe_apparent S location t_max moon)"
  shows "\<exists>d R_sun R_moon.
           d = separation_radians S (observe_apparent S location t_max sun)
                 (observe_apparent S location t_max moon) \<and>
           R_sun = arcsin (696340 / distance_km S (observe_apparent S location t_max sun)) \<and>
           R_moon = arcsin ((17374 / 10) / distance_km S (observe_apparent S location t_max moon)) \<and>
           0 < R_sun \<and> 0 < R_moon \<and>
           eclipse S mins ts location sun moon =
             Inr (utc_datetime S t_max,
                  if d \<ge> R_sun + R_moon then 0
                  else if d \<le> \<bar>R_sun - R_moon\<bar> then min R_moon R_sun / R_sun
                  else (R_moon + R_sun - d) / (2 * R_sun))"
proof -
  have sd: "RADIUS_SUN_KM \<le> distance_km S (observe_apparent S location t_max sun)"
    using assms(2) by (simp add: RADIUS_SUN_KM_def)
  have md: "RADIUS_MOON_KM \<le> distance_km S (observe_apparent S location t_max moon)"
    using assms(3) by (simp add: RADIUS_MOON_KM_def)
  from eclipse_value [OF assms(1) sd md] show ?thesis
    unfolding magnitude_policy_def RADIUS_SUN_KM_def RADIUS_MOON_KM_def by blast
qed

lemma stub_locate_max:
  "locate_max stub_skyfield [1070, 1080, 1090] () True False = Inr 1080"
  by (simp add: locate_max_def separations_def separation_at_def stub_skyfield_def)

lemma stub_sun_distance:
  "696340 \<le> distance_km stub_skyfield (observe_apparent stub_skyfield () t True)"
  by (simp add: stub_skyfield_def)

lemma stub_moon_distance:
  "17374 / 10 \<le> distance_km stub_skyfield (observe_apparent stub_skyfield () t False)"
  by (simp add: stub_skyfield_def)

theorem eclipse_three_branch_policy_witness:
  "locate_max stub_skyfield [1070, 1080, 1090] () True False = Inr 1080 \<and>
   696340 \<le> distance_km stub_skyfield (observe_apparent stub_skyfield () 1080 True) \<and>
   17374 / 10 \<le> distance_km stub_skyfield (observe_apparent stub_skyfield () 1080 False) \<and>
   eclipse stub_skyfield [] [1070, 1080, 1090] () True False =
     Inr (1080, arcsin ((17374 / 10) / 384400) / arcsin (696340 / 150000000))"
proof -
  note h1 = stub_locate_max
  note h2 = stub_sun_distance [of 1080]
  note h3 = stub_moon_distance [of 1080]
  from eclipse_three_branch_policy [OF h1 h2 h3, of "[]"] obtain d R_sun R_moon where
    d: "d = separation_radians stub_skyfield (observe_apparent stub_skyfield () 1080 True)
                 (observe_apparent stub_skyfield () 1080 False)"
    and rs: "R_sun = arcsin (696340 / distance_km stub_skyfield (observe_apparent stub_skyfield () 1080 True))"
    and rm: "R_moon = arcsin ((17374 / 10) / distance_km stub_skyfield (observe_apparent stub_skyfield () 1080 False))"
    and pos: "0 < R_sun" "0 < R_moon"
    and e: "eclipse stub_skyfield [] [1070, 1080, 1090] () True False =
             Inr (utc_datetime stub_skyfield 1080,
                  if d \<ge> R_sun + R_moon then 0
                  else if d \<le> \<bar>R_sun - R_moon\<bar> then min R_moon R_sun / R_sun
                  else (R_moon + R_sun - d) / (2 * R_sun))"
    by blast
  have d0: "d = 0" unfolding d by (simp add: stub_skyfield_def)
  have rs': "R_sun = arcsin (696340 / 150000000)" unfolding rs by (simp add: stub_skyfield_def)
  have rm': "R_moon = arcsin ((17374 / 10) / 384400)" unfolding rm by (simp add: stub_skyfield_def)
  have lt: "R_moon < R_sun" unfolding rs' rm' by (rule arcsin_less_arcsin) simp_all
  have u: "utc_datetime stub_skyfield 1080 = 1080" by (simp add: stub_skyfield_def)
  have "eclipse stub_skyfield [] [1070, 1080, 1090] () True False = Inr (1080, R_moon / R_sun)"
    unfolding e u using pos d0 lt by simp
  then have "eclipse stub_skyfield [] [1070, 1080, 1090] () True False =
     Inr (1080, arcsin ((17374 / 10) / 384400) / arcsin (696340 / 150000000))"
    unfolding rs' rm' .
  with h1 h2 h3 show ?thesis by blast
qed

text \<open>
  Claim C2. For a non-empty window in which both distances are at least the physical
  radii (so that both angular radii are positive), \<open>eclipse\<close> returns a pair, and its
  magnitude lies in the closed interval from 0 to 1.
\<close>

theorem eclipse_magnitude_in_unit_interval:
  assumes "ts \<noteq> []"
    and "\<forall>t\<in>set ts. 696340 \<le> distance_km S (observe_apparent S location t sun) \<and>
                     17374 / 10 \<le> distance_km S (observe_apparent S location t moon)"
  shows "\<exists>tu m. eclipse S mins ts location sun moon = Inr (tu, m) \<and> 0 \<le> m \<and> m \<le> 1"
proof -
  from locate_max_spec [OF assms(1), of S location sun moon] obtain i where
    i: "i < length ts" "locate_max S ts location sun moon = Inr (ts ! i)"
    by blast
  have mem: "ts ! i \<in> set ts" using i(1) by simp
  have sd: "RADIUS_SUN_KM \<le> distance_km S (observe_apparent S location (ts ! i) sun)"
    using assms(2) mem by (simp add: RADIUS_SUN_KM_def)
  have md: "RADIUS_MOON_KM \<le> distance_km S (observe_apparent S location (ts ! i) moon)"
    using assms(2) mem by (simp add: RADIUS_MOON_KM_def)
  note v = eclipse_value [OF i(2) sd md]
  note b = magnitude_policy_bounds [OF v(2) v(3)]
  from v(1) b show ?thesis by blast
qed

theorem eclipse_magnitude_in_unit_interval_witness:
  "[1070, 1080, 1090 :: real] \<noteq> [] \<and>
   696340 \<le> distance_km stub_skyfield (observe_apparent stub_skyfield () 1070 True) \<and>
   17374 / 10 \<le> distance_km stub_skyfield (observe_apparent stub_skyfield () 1090 False) \<and>
   (\<exists>tu m. eclipse stub_skyfield [] [1070, 1080, 1090] () True False = Inr (tu, m)
            \<and> 0 \<le> m \<and> m \<le> 1)"
proof -
  have ne: "[1070, 1080, 1090 :: real] \<noteq> []" by simp
  have h: "\<forall>t\<in>set [1070, 1080, 1090 :: real].
             696340 \<le> distance_km stub_skyfield (observe_apparent stub_skyfield () t True) \<and>
             17374 / 10 \<le> distance_km stub_skyfield (observe_apparent stub_skyfield () t False)"
    using stub_sun_distance stub_moon_distance by blast
  show ?thesis
    by (intro conjI ne stub_sun_distance stub_moon_distance
        eclipse_magnitude_in_unit_interval [OF ne h])
qed

subsection \<open>The returned time lies in the window\<close>

lemma stub_eclipse_returns:
  "\<exists>m. eclipse stub_skyfield [] [1070, 1080, 1090] () True False = Inr (1080, m)"
proof -
  have sd: "RADIUS_SUN_KM \<le> distance_km stub_skyfield (observe_apparent stub_skyfield () 1080 True)"
    using stub_sun_distance [of 1080] by (simp add: RADIUS_SUN_KM_def)
  have md: "RADIUS_MOON_KM \<le> distance_km stub_skyfield (observe_apparent stub_skyfield () 1080 False)"
    using stub_moon_distance [of 1080] by (simp add: RADIUS_MOON_KM_def)
  have u: "utc_datetime stub_skyfield 1080 = 1080" by (simp add: stub_skyfield_def)
  from eclipse_value(1) [OF stub_locate_max sd md, of "[]"] show ?thesis
    unfolding u by blast
qed

text \<open>
  Claim C5. For a non-empty window, the time of maximum found by \<open>locate_max\<close> is
  an element of the window, and any time \<open>eclipse\<close> returns is the UTC datetime of
  an element of the window.
\<close>

theorem t_max_within_window:
  assumes "ts \<noteq> []"
  shows "(\<exists>t\<in>set ts. locate_max S ts location sun moon = Inr t) \<and>
         (\<forall>tu m. eclipse S mins ts location sun moon = Inr (tu, m)
            \<longrightarrow> tu \<in> utc_datetime S ` set ts)"
proof -
  from locate_max_spec [OF assms, of S location sun moon] obtain i where
    i: "i < length ts" "locate_max S ts location sun moon = Inr (ts ! i)"
    by blast
  have mem: "ts ! i \<in> set ts" using i(1) by simp
  have "\<forall>tu m. eclipse S mins ts location sun moon = Inr (tu, m)
            \<longrightarrow> tu \<in> utc_datetime S ` set ts"
    using eclipse_time [OF i(2)] mem by blast
  with mem i(2) show ?thesis by blast
qed

theorem t_max_within_window_witness:
  "[1070, 1080, 1090 :: real] \<noteq> [] \<and>
   (\<exists>t\<in>set [1070, 1080, 1090].
      locate_max stub_skyfield [1070, 1080, 1090] () True False = Inr t) \<and>
   (\<exists>m. eclipse stub_skyfield [] [1070, 1080, 1090] () True False = Inr (1080, m)) \<and>
   1080 \<in> utc_datetime stub_skyfield ` set [1070, 1080, 1090]"
proof -
  have ne: "[1070, 1080, 1090 :: real] \<noteq> []" by simp
  note t = t_max_within_window [OF ne, of stub_skyfield "()" True False "[]"]
  from stub_eclipse_returns obtain m where
    m: "eclipse stub_skyfield [] [1070, 1080, 1090] () True False = Inr (1080, m)"
    by blast
  from t m have "1080 \<in> utc_datetime stub_skyfield ` set [1070, 1080, 1090]"
    by blast
  with ne t m show ?thesis by blast
qed

subsection \<open>The partial-overlap branch and the branch boundaries\<close>

text \<open>
  Claim C6. For positive radii, the magnitude is a function of \<open>d\<close> that is continuous
  on the open interval between \<open>\<bar>R_sun - R_moon\<bar>\<close> and \<open>R_sun + R_moon\<close>; for
  \<open>d1 \<le> d2\<close> in that interval both magnitudes are given by the partial-overlap formula,
  and the magnitude at \<open>d2\<close> is at most the magnitude at \<open>d1\<close>.
\<close>

theorem partial_overlap_nonincreasing:
  assumes "0 < R_sun" and "0 < R_moon"
    and "\<bar>R_sun - R_moon\<bar> < d1" and "d1 \<le> d2" and "d2 < R_sun + R_moon"
  shows "\<exists>f. (\<forall>d. magnitude_of d R_sun R_moon = Inr (f d)) \<and>
             continuous_on {\<bar>R_sun - R_moon\<bar> <..< R_sun + R_moon} f \<and>
             f d1 = (R_moon + R_sun - d1) / (2 * R_sun) \<and>
             f d2 = (R_moon + R_sun - d2) / (2 * R_sun) \<and>
             f d2 \<le> f d1"
proof -
  let ?f = "\<lambda>d. magnitude_policy d R_sun R_moon"
  have nz: "R_sun \<noteq> 0" using assms(1) by simp
  have 1: "\<forall>d. magnitude_of d R_sun R_moon = Inr (?f d)"
    using magnitude_of_policy [OF nz] by blast
  have 2: "continuous_on {\<bar>R_sun - R_moon\<bar> <..< R_sun + R_moon} ?f"
    by (rule magnitude_policy_continuous [OF assms(1,2)])
  have 3: "?f d1 = (R_moon + R_sun - d1) / (2 * R_sun)"
    using assms(3,4,5) by (simp add: magnitude_policy_def)
  have 4: "?f d2 = (R_moon + R_sun - d2) / (2 * R_sun)"
    using assms(3,4,5) by (simp add: magnitude_policy_def)
  have 5: "?f d2 \<le> ?f d1"
    by (rule magnitude_policy_antimono [OF assms(1,2,4)])
  show ?thesis by (rule exI [of _ ?f]) (intro conjI 1 2 3 4 5)
qed

theorem partial_overlap_nonincreasing_witness:
  "(0::real) < 2 \<and> (0::real) < 1 \<and> \<bar>2 - 1\<bar> < (3 / 2 :: real) \<and> (3 / 2 :: real) \<le> 2 \<and>
   (2::real) < 2 + 1 \<and>
   (\<exists>f. (\<forall>d. magnitude_of d 2 1 = Inr (f d)) \<and>
        continuous_on {\<bar>2 - 1\<bar> <..< 2 + 1} f \<and>
        f (3 / 2) = (1 + 2 - 3 / 2) / (2 * 2) \<and>
        f 2 = (1 + 2 - 2) / (2 * 2) \<and>
        f 2 \<le> f (3 / 2))"
proof -
  have h1: "(0::real) < 2" by simp
  have h2: "(0::real) < 1" by simp
  have h3: "\<bar>2 - 1\<bar> < (3 / 2 :: real)" by simp
  have h4: "(3 / 2 :: real) \<le> 2" by simp
  have h5: "(2::real) < 2 + 1" by simp
  show ?thesis
    by (intro conjI h1 h2 h3 h4 h5 partial_overlap_nonincreasing [OF h1 h2 h3 h4 h5])
qed

text \<open>
  Claim C9. For positive radii, the partial-overlap formula at \<open>d = R_sun + R_moon\<close> is
  0, the value of the first branch there; at \<open>d = \<bar>R_sun - R_moon\<bar>\<close> it is
  \<open>min R_moon R_sun / R_sun\<close>, the value of the second branch there; and the magnitude is
  a continuous function of \<open>d\<close> on the half-line from 0.
\<close>

theorem magnitude_continuous_at_boundaries:
  assumes "0 < R_sun" and "0 < R_moon"
  shows "partial_overlap (R_sun + R_moon) R_sun R_moon = Inr 0 \<and>
         magnitude_of (R_sun + R_moon) R_sun R_moon = Inr 0 \<and>
         partial_overlap \<bar>R_sun - R_moon\<bar> R_sun R_moon = Inr (min R_moon R_sun / R_sun) \<and>
         magnitude_of \<bar>R_sun - R_moon\<bar> R_sun R_moon = Inr (min R_moon R_sun / R_sun) \<and>
         (\<exists>f. (\<forall>d. magnitude_of d R_sun R_moon = Inr (f d)) \<and> continuous_on {0..} f)"
proof -
  let ?f = "\<lambda>d. magnitude_policy d R_sun R_moon"
  have nz: "R_sun \<noteq> 0" using assms(1) by simp
  have m: "R_moon + R_sun - \<bar>R_sun - R_moon\<bar> = 2 * min R_moon R_sun"
    by (simp add: min_def abs_if)
  have 1: "partial_overlap (R_sun + R_moon) R_sun R_moon = Inr 0"
    using nz by (simp add: partial_overlap_def py_div_def)
  have 2: "magnitude_of (R_sun + R_moon) R_sun R_moon = Inr 0"
    by (simp add: magnitude_of_def)
  have 3: "partial_overlap \<bar>R_sun - R_moon\<bar> R_sun R_moon = Inr (min R_moon R_sun / R_sun)"
    using nz by (simp add: partial_overlap_def py_div_def m)
  have lt: "\<bar>R_sun - R_moon\<bar> < R_sun + R_moon" using assms by (simp add: abs_if)
  have 4: "magnitude_of \<bar>R_sun - R_moon\<bar> R_sun R_moon = Inr (min R_moon R_sun / R_sun)"
    using nz lt by (simp add: magnitude_of_def full_coverage_def py_div_def)
  have 5: "\<forall>d. magnitude_of d R_sun R_moon = Inr (?f d)"
    using magnitude_of_policy [OF nz] by blast
  have 6: "continuous_on {0..} ?f"
    by (rule magnitude_policy_continuous [OF assms])
  have "\<exists>f. (\<forall>d. magnitude_of d R_sun R_moon = Inr (f d)) \<and> continuous_on {0..} f"
    by (rule exI [of _ ?f]) (intro conjI 5 6)
  with 1 2 3 4 show ?thesis by simp
qed

theorem magnitude_continuous_at_boundaries_witness:
  "(0::real) < 2 \<and> (0::real) < 1 \<and>
   partial_overlap (2 + 1) 2 1 = Inr 0 \<and>
   magnitude_of (2 + 1) 2 1 = Inr 0 \<and>
   partial_overlap \<bar>2 - 1\<bar> 2 1 = Inr (min 1 2 / 2) \<and>
   magnitude_of \<bar>2 - 1\<bar> 2 1 = Inr (min 1 2 / 2) \<and>
   (\<exists>f. (\<forall>d. magnitude_of d 2 1 = Inr (f d)) \<and> continuous_on {0..} f)"
proof -
  have h1: "(0::real) < 2" by simp
  have h2: "(0::real) < 1" by simp
  note t = magnitude_continuous_at_boundaries [OF h1 h2]
  show ?thesis
    by (intro conjI h1 h2 t [THEN conjunct1] t [THEN conjunct2, THEN conjunct1]
        t [THEN conjunct2, THEN conjunct2, THEN conjunct1]
        t [THEN conjunct2, THEN conjunct2, THEN conjunct2, THEN conjunct1]
        t [THEN conjunct2, THEN conjunct2, THEN conjunct2, THEN conjunct2])
qed

subsection \<open>The reference time window\<close>

lemma length_linspace: "length (linspace a b n) = n"
  by (simp add: linspace_def Let_def)

lemma linspace_nth:
  assumes "1 < n" "i < n"
  shows "linspace a b n ! i = a + real i * ((b - a) / real (n - 1))"
proof (cases "i = n - 1")
  case True
  have "real (n - 1) \<noteq> 0" using assms by simp
  then have "a + real (n - 1) * ((b - a) / real (n - 1)) = b" by simp
  then show ?thesis using assms True by (simp add: linspace_def Let_def)
next
  case False
  then show ?thesis using assms by (simp add: linspace_def Let_def)
qed

lemma length_minutes: "length minutes = 1000"
  by (simp add: minutes_def length_linspace)

lemma minutes_nth: "i < 1000 \<Longrightarrow> minutes ! i = - 60 + real i * (120 / 999)"
  unfolding minutes_def by (subst linspace_nth) simp_all

lemma length_times: "length times_utc = 1000"
  by (simp add: times_utc_def ts_utc_2026_8_12_def length_minutes)

lemma times_nth: "i < 1000 \<Longrightarrow> times_utc ! i = 60 * 18 + minutes ! i"
  by (simp add: times_utc_def ts_utc_2026_8_12_def length_minutes)

lemma times_increasing: "sorted_wrt (<) times_utc"
proof -
  have "times_utc ! i < times_utc ! j" if "i < j" "j < 1000" for i j
  proof -
    have "real i < real j" using that by simp
    then have "real i * (120 / 999) < real j * (120 / 999)" by simp
    then show ?thesis using that by (simp add: times_nth minutes_nth)
  qed
  then show ?thesis by (simp add: sorted_wrt_iff_nth_less length_times)
qed

text \<open>
  Claim C8. The reference window has 1000 samples: the offsets run from -60 to 60
  minutes, each instant is 18:00 UTC plus its offset (so the window runs from 17:00 to
  19:00), consecutive samples are 120/999 minutes apart, and the instants are strictly
  increasing.
\<close>

theorem reference_window:
  "length minutes = 1000 \<and> length times_utc = 1000 \<and>
   minutes ! 0 = - 60 \<and> minutes ! 999 = 60 \<and>
   times_utc ! 0 = 60 * 18 - 60 \<and> times_utc ! 999 = 60 * 18 + 60 \<and>
   (\<forall>i<1000. times_utc ! i = 60 * 18 + minutes ! i) \<and>
   (\<forall>i<999. minutes ! Suc i - minutes ! i = 120 / 999 \<and>
             times_utc ! Suc i - times_utc ! i = 120 / 999) \<and>
   sorted_wrt (<) times_utc"
proof -
  have step: "minutes ! Suc i - minutes ! i = 120 / 999 \<and> times_utc ! Suc i - times_utc ! i = 120 / 999"
    if "i < 999" for i
    using that by (simp add: times_nth minutes_nth algebra_simps)
  have "minutes ! 0 = - 60" by (simp add: minutes_nth)
  moreover have "minutes ! 999 = 60" by (simp add: minutes_nth)
  moreover have "times_utc ! 0 = 60 * 18 - 60" by (simp add: times_nth minutes_nth)
  moreover have "times_utc ! 999 = 60 * 18 + 60" by (simp add: times_nth minutes_nth)
  ultimately show ?thesis
    using step times_nth times_increasing length_minutes length_times by blast
qed

theorem reference_window_witness:
  "times_utc ! 500 = 60 * 18 + minutes ! 500 \<and>
   minutes ! Suc 0 - minutes ! 0 = 120 / 999 \<and>
   times_utc ! Suc 0 - times_utc ! 0 = 120 / 999 \<and>
   times_utc ! 0 = 1020 \<and> times_utc ! 999 = 1140"
proof -
  note t = reference_window
  have a: "\<forall>i<1000. times_utc ! i = 60 * 18 + minutes ! i" using t by blast
  have b: "\<forall>i<999. minutes ! Suc i - minutes ! i = 120 / 999 \<and>
             times_utc ! Suc i - times_utc ! i = 120 / 999" using t by blast
  have c: "times_utc ! 0 = 60 * 18 - 60" "times_utc ! 999 = 60 * 18 + 60" using t by blast+
  have "times_utc ! 500 = 60 * 18 + minutes ! 500" using a by simp
  moreover have "minutes ! Suc 0 - minutes ! 0 = 120 / 999 \<and>
    times_utc ! Suc 0 - times_utc ! 0 = 120 / 999" using b by simp
  moreover have "times_utc ! 0 = 1020" "times_utc ! 999 = 1140" using c by simp_all
  ultimately show ?thesis by blast
qed

subsection \<open>Horizon gating in \<^verbatim>\<open>estimate_eclipse\<close>\<close>

lemma scan_events_below_horizon:
  "\<forall>(ti, ei)\<in>set evs. ei = 1 \<longrightarrow> sun_altitude A observer ti \<le> 0
     \<Longrightarrow> scan_events A observer evs = (None, 0)"
proof (induction evs)
  case Nil
  then show ?case by simp
next
  case (Cons ev evs)
  obtain ti ei where ev: "ev = (ti, ei)" by (cases ev)
  from Cons.prems have rest: "\<forall>(ti, ei)\<in>set evs. ei = 1 \<longrightarrow> sun_altitude A observer ti \<le> 0"
    by simp
  from Cons.prems ev have here: "ei = 1 \<longrightarrow> sun_altitude A observer ti \<le> 0" by simp
  show ?case unfolding ev using here Cons.IH [OF rest] by (auto simp: Let_def)
qed

text \<open>
  Claim C7. If at every event that is a maximum of the eclipse (event code 1) the
  altitude of the Sun is not above 0 degrees, \<open>estimate_eclipse\<close> reports no visible
  eclipse: no time and magnitude 0, whatever the positions of the Sun and the Moon.
\<close>

theorem below_horizon_not_visible:
  assumes "find_eclipse_events A (latlon A lat lon) = (tms, events)"
    and "\<forall>(ti, ei)\<in>set (zip tms events).
           ei = 1 \<longrightarrow> sun_altitude A (latlon A lat lon) ti \<le> 0"
  shows "estimate_eclipse A lat lon = (None, 0)"
  using assms(1) scan_events_below_horizon [OF assms(2)]
  by (simp add: estimate_eclipse_def Let_def)

theorem below_horizon_not_visible_witness:
  "find_eclipse_events stub_almanac (latlon stub_almanac 50 14) = ([1080], [1]) \<and>
   sun_altitude stub_almanac (latlon stub_almanac 50 14) 1080 \<le> 0 \<and>
   norm_diff (sun_position_km stub_almanac (latlon stub_almanac 50 14) 1080)
     (moon_position_km stub_almanac (latlon stub_almanac 50 14) 1080) = 0 \<and>
   estimate_eclipse stub_almanac 50 14 = (None, 0)"
proof -
  have h1: "find_eclipse_events stub_almanac (latlon stub_almanac 50 14) = ([1080], [1])"
    by (simp add: stub_almanac_def)
  have alt: "sun_altitude stub_almanac (latlon stub_almanac 50 14) 1080 \<le> 0"
    by (simp add: stub_almanac_def)
  have h2: "\<forall>(ti, ei)\<in>set (zip [1080] [1 :: int]).
           ei = 1 \<longrightarrow> sun_altitude stub_almanac (latlon stub_almanac 50 14) ti \<le> 0"
    using alt by simp
  have n: "norm_diff (sun_position_km stub_almanac (latlon stub_almanac 50 14) 1080)
     (moon_position_km stub_almanac (latlon stub_almanac 50 14) 1080) = 0"
    by (simp add: stub_almanac_def)
  show ?thesis
    by (intro conjI h1 alt n below_horizon_not_visible [OF h1 h2])
qed

text \<open>With the same almanac and the Sun five degrees above the horizon, the eclipse is reported.\<close>

lemma stub_above_horizon_visible:
  "estimate_eclipse (stub_almanac\<lparr>sun_altitude := (\<lambda>observer t. 5)\<rparr>) 50 14 = (Some 1080, 1)"
  by (simp add: estimate_eclipse_def stub_almanac_def Let_def py_round_def round_half_even_def)

end
